theory Spec2Isabelle
  imports Main
begin

section \<open>Python values used by the wrapper\<close>

text \<open>
  The module \<^verbatim>\<open>examples/gcp_agent_wrapper.py\<close> is a FastAPI application with two
  protocol endpoints, \<^verbatim>\<open>GET /.well-known/agent.json\<close> (\<open>agent_discovery\<close>) and
  \<^verbatim>\<open>POST /execute\<close> (\<open>execute_task\<close>), and one replaceable coroutine
  \<open>process_task\<close>.

  Python \<^verbatim>\<open>str\<close> is modelled as \<open>string\<close>; the module only compares, concatenates
  and splits strings at an ASCII comma, which agree on code points and on their UTF-8
  bytes. A \<^verbatim>\<open>Dict[str, Any]\<close> decoded from a JSON body is an association list in
  insertion order over JSON values (numbers restricted to integers, the only ones the
  module writes).
\<close>

datatype json =
    JNull
  | JBool bool
  | JInt int
  | JStr string
  | JList "json list"
  | JDict "(string \<times> json) list"

type_synonym dict = "(string \<times> json) list"

text \<open>The process environment read by \<^verbatim>\<open>os.getenv\<close>.\<close>

type_synonym environ = "string \<rightharpoonup> string"

text \<open>\<^verbatim>\<open>os.getenv(name)\<close> is \<open>env name\<close>; \<^verbatim>\<open>os.getenv(name, default)\<close> is:\<close>

definition getenv :: "environ \<Rightarrow> string \<Rightarrow> string \<Rightarrow> string" where
  "getenv env name dflt = (case env name of None \<Rightarrow> dflt | Some v \<Rightarrow> v)"

text \<open>
  \<^verbatim>\<open>s.split(",")\<close>: the pieces between the separators; the empty string gives one
  empty piece.
\<close>

fun split :: "char \<Rightarrow> string \<Rightarrow> string list" where
  "split sep [] = [[]]"
| "split sep (c # cs) =
     (if c = sep then [] # split sep cs
      else (case split sep cs of
              [] \<Rightarrow> [[c]]
            | p # ps \<Rightarrow> (c # p) # ps))"

text \<open>
  Truth value of an \<^verbatim>\<open>Optional[str]\<close>: \<^verbatim>\<open>None\<close> and the empty string are
  false.
\<close>

definition truthy :: "string option \<Rightarrow> bool" where
  "truthy s = (case s of None \<Rightarrow> False | Some v \<Rightarrow> v \<noteq> [])"

text \<open>
  \<^verbatim>\<open>c or {}\<close> for an \<^verbatim>\<open>Optional[Dict]\<close>: \<^verbatim>\<open>None\<close> and the empty dict are
  false, and then the fresh empty dict is the value.
\<close>

definition or_empty :: "dict option \<Rightarrow> dict" where
  "or_empty c = (case c of None \<Rightarrow> [] | Some m \<Rightarrow> (if m = [] then [] else m))"

section \<open>Configuration\<close>

text \<open>
  The module-level constants, read from the environment once, when the module is
  imported. \<open>API_KEY\<close> has no default: it is \<^verbatim>\<open>None\<close> when the variable is unset
  and the variable's value, possibly empty, when it is set.
\<close>

record config =
  AGENT_NAME :: string
  AGENT_DESCRIPTION :: string
  AGENT_CAPABILITIES :: "string list"
  AGENT_KEYWORDS :: "string list"
  API_KEY :: "string option"
  ALLOWED_ORIGINS :: string

definition load_config :: "environ \<Rightarrow> config" where
  "load_config env =
     \<lparr>AGENT_NAME = getenv env ''AGENT_NAME'' ''gcp-adk-agent'',
      AGENT_DESCRIPTION =
        getenv env ''AGENT_DESCRIPTION'' ''ADK-based agent running in Google Cloud'',
      AGENT_CAPABILITIES =
        split CHR '','' (getenv env ''AGENT_CAPABILITIES'' ''general,nlp,conversation''),
      AGENT_KEYWORDS =
        split CHR '','' (getenv env ''AGENT_KEYWORDS'' ''chat,assistant,help''),
      API_KEY = env ''API_KEY'',
      ALLOWED_ORIGINS = getenv env ''ALLOWED_ORIGINS'' ''*''\<rparr>"

section \<open>Data models\<close>

text \<open>
  The pydantic models. A field of type \<^verbatim>\<open>Optional[T]\<close> holds \<^verbatim>\<open>None\<close> or a
  \<open>T\<close>. A keyword argument of the constructor is either left out, and then the field
  takes its default, or passed, and then the field holds what was passed, \<^verbatim>\<open>None\<close>
  included.
\<close>

datatype 'a arg = Omitted | Passed 'a

record TaskRequest =
  task :: string
  user_id :: "string option"
  "context" :: "dict option"
  metadata :: "dict option"

definition TaskRequest_init ::
  "string \<Rightarrow> string option arg \<Rightarrow> dict option arg \<Rightarrow> dict option arg \<Rightarrow> TaskRequest" where
  "TaskRequest_init t u c m =
     \<lparr>task = t,
      user_id = (case u of Omitted \<Rightarrow> Some ''anonymous'' | Passed v \<Rightarrow> v),
      context = (case c of Omitted \<Rightarrow> Some [] | Passed v \<Rightarrow> v),
      metadata = (case m of Omitted \<Rightarrow> Some [] | Passed v \<Rightarrow> v)\<rparr>"

record TaskResponse =
  result :: string
  agent :: string
  status :: string
  response_metadata :: "dict option"

text \<open>\<^verbatim>\<open>fastapi.HTTPException(status_code=..., detail=...)\<close>.\<close>

record HTTPException =
  status_code :: nat
  detail :: string

section \<open>The processing function\<close>

text \<open>
  \<open>execute_task\<close> awaits \<^verbatim>\<open>process_task(task=..., user_id=..., context=...)\<close>, a
  coroutine the module's users are told to replace. Awaiting it ends in one of four
  ways: it returns a string; it raises an \<^verbatim>\<open>Exception\<close> \<open>e\<close> (kept as
  \<^verbatim>\<open>str(e)\<close>, all that the handler reads of it); it raises a
  \<^verbatim>\<open>BaseException\<close> that is not an \<^verbatim>\<open>Exception\<close>
  (\<^verbatim>\<open>asyncio.CancelledError\<close>, \<^verbatim>\<open>SystemExit\<close>,
  \<^verbatim>\<open>KeyboardInterrupt\<close>; kept as its \<^verbatim>\<open>str\<close> too); or it never
  completes.
\<close>

datatype awaited = Returns string | Raises string | Escapes string | Pending

type_synonym process_fn = "string \<Rightarrow> string option \<Rightarrow> dict \<Rightarrow> awaited"

text \<open>
  The placeholder shipped in the module: it logs and returns
  \<^verbatim>\<open>f"Processed by {AGENT_NAME}: {task}"\<close>.
\<close>

definition process_task :: "config \<Rightarrow> process_fn" where
  "process_task cfg t u c = Returns (''Processed by '' @ AGENT_NAME cfg @ '': '' @ t)"

section \<open>The endpoints\<close>

text \<open>
  \<^verbatim>\<open>agent_discovery()\<close> takes no argument, no header either, and returns a dict
  literal. The two \<^verbatim>\<open>contact\<close> entries are read from the environment when the
  handler runs.
\<close>

definition agent_discovery :: "config \<Rightarrow> environ \<Rightarrow> dict" where
  "agent_discovery cfg env =
     [(''name'', JStr (AGENT_NAME cfg)),
      (''description'', JStr (AGENT_DESCRIPTION cfg)),
      (''version'', JStr ''1.0.0''),
      (''protocol'', JStr ''a2a''),
      (''capabilities'', JList (map JStr (AGENT_CAPABILITIES cfg))),
      (''keywords'', JList (map JStr (AGENT_KEYWORDS cfg))),
      (''endpoints'',
         JDict [(''execute'', JStr ''/execute''),
                (''health'', JStr ''/health''),
                (''metrics'', JStr ''/metrics'')]),
      (''contact'',
         JDict [(''platform'', JStr ''Google Cloud Platform''),
                (''region'', JStr (getenv env ''GCP_REGION'' ''us-central1'')),
                (''service'', JStr (getenv env ''K_SERVICE'' ''cloud-run''))]),
      (''limits'',
         JDict [(''max_task_length'', JInt 10000),
                (''timeout_seconds'', JInt 30),
                (''rate_limit'', JStr ''100/minute'')])]"

text \<open>
  One run of \<^verbatim>\<open>execute_task(request, x_api_key)\<close>: \<open>calls\<close> lists the argument
  triples \<^verbatim>\<open>process_task\<close> was awaited with, in order; \<open>outcome\<close> is what the
  caller gets: \<open>Some (Inr r)\<close> when the handler returns the response \<open>r\<close>,
  \<open>Some (Inl e)\<close> when it raises the \<^verbatim>\<open>HTTPException\<close> \<open>e\<close>, and \<open>None\<close> when
  it does neither; \<open>uncaught\<close> is the exception that leaves the handler through
  \<^verbatim>\<open>except Exception\<close>, which does not catch it, if there is one. A run with
  neither an outcome nor an uncaught exception is one that never returns. Log lines are
  not part of the model.
\<close>

record execution =
  calls :: "(string \<times> string option \<times> dict) list"
  outcome :: "(HTTPException + TaskResponse) option"
  uncaught :: "string option"

definition execute_task ::
  "config \<Rightarrow> environ \<Rightarrow> process_fn \<Rightarrow> TaskRequest \<Rightarrow> string option \<Rightarrow> execution" where
  "execute_task cfg env proc request x_api_key =
     (if truthy (API_KEY cfg) \<and> x_api_key \<noteq> API_KEY cfg then
        \<lparr>calls = [],
         outcome = Some (Inl \<lparr>status_code = 401, detail = ''Invalid or missing API key''\<rparr>),
         uncaught = None\<rparr>
      else
        \<lparr>calls = [(task request, user_id request, or_empty (context request))],
         outcome =
           (case proc (task request) (user_id request) (or_empty (context request)) of
              Returns r \<Rightarrow>
                Some (Inr \<lparr>result = r,
                           agent = AGENT_NAME cfg,
                           status = ''completed'',
                           response_metadata =
                             Some [(''platform'', JStr ''gcp''),
                                   (''service'', JStr ''cloud-run''),
                                   (''region'', JStr (getenv env ''GCP_REGION'' ''unknown''))]\<rparr>)
            | Raises e \<Rightarrow>
                Some (Inl \<lparr>status_code = 500,
                           detail = ''Task execution failed: '' @ e\<rparr>)
            | Escapes b \<Rightarrow> None
            | Pending \<Rightarrow> None),
         uncaught =
           (case proc (task request) (user_id request) (or_empty (context request)) of
              Escapes b \<Rightarrow> Some b
            | _ \<Rightarrow> None)\<rparr>)"

section \<open>Inputs used in the examples\<close>

text \<open>
  Three environments the process can be started in (nothing set; a key set; a key set
  to the empty string), a request body \<^verbatim>\<open>{"task": "Convert 100 USD to EUR",
  "user_id": "u1"}\<close>, and three processing functions other than the placeholder: one
  that never completes, one that does \<^verbatim>\<open>raise RuntimeError("boom")\<close> and one
  that does \<^verbatim>\<open>raise SystemExit("shutdown")\<close>.
\<close>

definition default_config :: config where
  "default_config = load_config Map.empty"

definition secured_config :: config where
  "secured_config = load_config [''API_KEY'' \<mapsto> ''s3cret'']"

definition empty_key_config :: config where
  "empty_key_config = load_config [''API_KEY'' \<mapsto> '''']"

definition example_request :: TaskRequest where
  "example_request =
     TaskRequest_init ''Convert 100 USD to EUR'' (Passed (Some ''u1'')) Omitted Omitted"

definition never_completes :: process_fn where
  "never_completes t u c = Pending"

definition always_raises :: process_fn where
  "always_raises t u c = Raises ''boom''"

definition exits_process :: process_fn where
  "exits_process t u c = Escapes ''shutdown''"

section \<open>The two branches of the key check\<close>

lemma truthy_iff: "truthy k = (\<exists>s. k = Some s \<and> s \<noteq> [])"
  by (cases k) (simp_all add: truthy_def)

lemma execute_task_rejected:
  "truthy (API_KEY cfg) \<and> key \<noteq> API_KEY cfg \<Longrightarrow>
   execute_task cfg env proc request key =
     \<lparr>calls = [],
      outcome = Some (Inl \<lparr>status_code = 401, detail = ''Invalid or missing API key''\<rparr>),
      uncaught = None\<rparr>"
  by (simp add: execute_task_def)

lemma execute_task_accepted:
  "\<not> (truthy (API_KEY cfg) \<and> key \<noteq> API_KEY cfg) \<Longrightarrow>
   execute_task cfg env proc request key =
     \<lparr>calls = [(task request, user_id request, or_empty (context request))],
      outcome =
        (case proc (task request) (user_id request) (or_empty (context request)) of
           Returns r \<Rightarrow>
             Some (Inr \<lparr>result = r, agent = AGENT_NAME cfg, status = ''completed'',
                        response_metadata =
                          Some [(''platform'', JStr ''gcp''),
                                (''service'', JStr ''cloud-run''),
                                (''region'', JStr (getenv env ''GCP_REGION'' ''unknown''))]\<rparr>)
         | Raises e \<Rightarrow>
             Some (Inl \<lparr>status_code = 500, detail = ''Task execution failed: '' @ e\<rparr>)
         | Escapes b \<Rightarrow> None
         | Pending \<Rightarrow> None),
      uncaught =
        (case proc (task request) (user_id request) (or_empty (context request)) of
           Escapes b \<Rightarrow> Some b
         | _ \<Rightarrow> None)\<rparr>"
  by (simp add: execute_task_def)

section \<open>The example inputs, evaluated\<close>

lemma example_request_fields:
  "task example_request = ''Convert 100 USD to EUR''"
  "user_id example_request = Some ''u1''"
  "context example_request = Some []"
  "metadata example_request = Some []"
  by (simp_all add: example_request_def TaskRequest_init_def)

lemma config_keys:
  "API_KEY default_config = None"
  "API_KEY secured_config = Some ''s3cret''"
  "API_KEY empty_key_config = Some []"
  by (simp_all add: default_config_def secured_config_def empty_key_config_def load_config_def)

lemma config_names:
  "AGENT_NAME default_config = ''gcp-adk-agent''"
  "AGENT_NAME secured_config = ''gcp-adk-agent''"
  "AGENT_NAME empty_key_config = ''gcp-adk-agent''"
  by (simp_all add: default_config_def secured_config_def empty_key_config_def load_config_def
        getenv_def)

section \<open>One outcome per request\<close>

text \<open>
  Claim C1, as stated, fails on two kinds of accepted request. When the processing call
  never completes, the handler is still awaiting it and the caller has neither a
  response nor an exception. When the processing call raises \<^verbatim>\<open>SystemExit\<close>,
  \<^verbatim>\<open>except Exception\<close> does not catch it and the handler ends with neither a
  \<open>TaskResponse\<close> nor an \<open>HTTPException\<close>.
\<close>

theorem no_outcome_counterexample:
  "execute_task secured_config Map.empty never_completes example_request (Some ''s3cret'') =
     \<lparr>calls = [(''Convert 100 USD to EUR'', Some ''u1'', [])],
      outcome = None,
      uncaught = None\<rparr> \<and>
   execute_task default_config Map.empty exits_process example_request None =
     \<lparr>calls = [(''Convert 100 USD to EUR'', Some ''u1'', [])],
      outcome = None,
      uncaught = Some ''shutdown''\<rparr>"
  by (simp add: config_keys example_request_fields execute_task_def truthy_def or_empty_def
        never_completes_def exits_process_def)

text \<open>
  Claim C1, amended. \<open>execute_task\<close> gives the caller exactly one outcome, either one
  \<open>TaskResponse\<close> or one \<open>HTTPException\<close> and never both, exactly when the key is
  rejected or the processing call returns or raises an \<^verbatim>\<open>Exception\<close>. The
  exception's status is then 401 or 500; there is no timeout error. The caller gets no
  outcome exactly when the request passes the key check and the processing call never
  completes or raises something that is not an \<^verbatim>\<open>Exception\<close>.
\<close>

theorem execute_task_one_outcome_iff_completed:
  "((\<exists>r. outcome (execute_task cfg env proc request key) = Some (Inr r)) \<noteq>
    (\<exists>e. outcome (execute_task cfg env proc request key) = Some (Inl e))) =
   ((truthy (API_KEY cfg) \<and> key \<noteq> API_KEY cfg) \<or>
    (\<exists>r. proc (task request) (user_id request) (or_empty (context request)) = Returns r) \<or>
    (\<exists>msg. proc (task request) (user_id request) (or_empty (context request)) = Raises msg)) \<and>
   (\<forall>e. outcome (execute_task cfg env proc request key) = Some (Inl e) \<longrightarrow>
        status_code e = 401 \<or> status_code e = 500) \<and>
   (outcome (execute_task cfg env proc request key) = None) =
   (\<not> (truthy (API_KEY cfg) \<and> key \<noteq> API_KEY cfg) \<and>
    (proc (task request) (user_id request) (or_empty (context request)) = Pending \<or>
     (\<exists>b. proc (task request) (user_id request) (or_empty (context request)) = Escapes b)))"
proof (cases "truthy (API_KEY cfg) \<and> key \<noteq> API_KEY cfg")
  case True
  then show ?thesis by (simp add: execute_task_rejected)
next
  case False
  note accepted = execute_task_accepted [OF False, of env proc request]
  from False show ?thesis
    by (cases "proc (task request) (user_id request) (or_empty (context request))")
       (simp_all add: accepted)
qed

theorem execute_task_one_outcome_iff_completed_witness:
  "((\<exists>r. outcome (execute_task default_config Map.empty (process_task default_config)
                    example_request None) = Some (Inr r)) \<noteq>
    (\<exists>e. outcome (execute_task default_config Map.empty (process_task default_config)
                    example_request None) = Some (Inl e))) \<and>
   outcome (execute_task default_config Map.empty always_raises example_request None) =
     Some (Inl \<lparr>status_code = 500, detail = ''Task execution failed: boom''\<rparr>) \<and>
   outcome (execute_task secured_config Map.empty never_completes example_request None) =
     Some (Inl \<lparr>status_code = 401, detail = ''Invalid or missing API key''\<rparr>) \<and>
   outcome (execute_task default_config Map.empty exits_process example_request None) = None \<and>
   outcome (execute_task default_config Map.empty never_completes example_request None) = None"
  using
    execute_task_one_outcome_iff_completed [where cfg = default_config and key = None
      and env = Map.empty and proc = "process_task default_config" and request = example_request]
    execute_task_one_outcome_iff_completed [where cfg = default_config and key = None
      and env = Map.empty and proc = always_raises and request = example_request]
    execute_task_one_outcome_iff_completed [where cfg = secured_config and key = None
      and env = Map.empty and proc = never_completes and request = example_request]
    execute_task_one_outcome_iff_completed [where cfg = default_config and key = None
      and env = Map.empty and proc = exits_process and request = example_request]
    execute_task_one_outcome_iff_completed [where cfg = default_config and key = None
      and env = Map.empty and proc = never_completes and request = example_request]
  by (simp add: execute_task_def config_keys truthy_def process_task_def always_raises_def
        exits_process_def never_completes_def)

section \<open>The key check\<close>

text \<open>
  Claim C2, as stated, fails when the variable \<^verbatim>\<open>API_KEY\<close> is set to the empty
  string: the handler tests \<^verbatim>\<open>if API_KEY and x_api_key != API_KEY\<close>, the empty
  string is false, and a request that presents a key different from the configured one
  is processed and answered with a response.
\<close>

theorem empty_secret_counterexample:
  "API_KEY empty_key_config = Some [] \<and>
   Some ''wrong-key'' \<noteq> API_KEY empty_key_config \<and>
   execute_task empty_key_config Map.empty (process_task empty_key_config) example_request
       (Some ''wrong-key'') =
     \<lparr>calls = [(''Convert 100 USD to EUR'', Some ''u1'', [])],
      outcome =
        Some (Inr \<lparr>result = ''Processed by gcp-adk-agent: Convert 100 USD to EUR'',
                   agent = ''gcp-adk-agent'',
                   status = ''completed'',
                   response_metadata =
                     Some [(''platform'', JStr ''gcp''),
                           (''service'', JStr ''cloud-run''),
                           (''region'', JStr ''unknown'')]\<rparr>),
      uncaught = None\<rparr>"
  by (simp add: config_keys config_names example_request_fields getenv_def
        execute_task_def truthy_def or_empty_def process_task_def)

text \<open>
  Claim C2, amended to a non-empty secret. When \<open>API_KEY\<close> is a non-empty string \<open>s\<close>
  and the presented key is missing or differs from \<open>s\<close>, the run is exactly: no call of
  the processing function, the exception with status 401, nothing uncaught. When
  \<open>API_KEY\<close> is unset or empty, every request is passed to the processing function
  and no 401 is raised.
  When \<open>API_KEY\<close> is a non-empty \<open>s\<close>, the request is passed on if and only if the
  presented key is \<open>s\<close>.
\<close>

theorem execute_task_api_key_check:
  "(\<forall>s. API_KEY cfg = Some s \<and> s \<noteq> [] \<and> key \<noteq> Some s \<longrightarrow>
        execute_task cfg env proc request key =
          \<lparr>calls = [],
           outcome = Some (Inl \<lparr>status_code = 401,
                                detail = ''Invalid or missing API key''\<rparr>),
           uncaught = None\<rparr>) \<and>
   (API_KEY cfg = None \<or> API_KEY cfg = Some [] \<longrightarrow>
        calls (execute_task cfg env proc request key) =
          [(task request, user_id request, or_empty (context request))] \<and>
        (\<forall>e. outcome (execute_task cfg env proc request key) = Some (Inl e) \<longrightarrow>
             status_code e \<noteq> 401)) \<and>
   (\<forall>s. API_KEY cfg = Some s \<and> s \<noteq> [] \<longrightarrow>
        (calls (execute_task cfg env proc request key) =
           [(task request, user_id request, or_empty (context request))]) =
        (key = Some s))"
proof (cases "truthy (API_KEY cfg) \<and> key \<noteq> API_KEY cfg")
  case True
  then show ?thesis
    by (auto simp add: execute_task_rejected truthy_iff)
next
  case False
  note accepted = execute_task_accepted [OF False, of env proc request]
  from False show ?thesis
    by (cases "proc (task request) (user_id request) (or_empty (context request))")
       (auto simp add: accepted truthy_iff)
qed

theorem execute_task_api_key_check_witness:
  "API_KEY secured_config = Some ''s3cret'' \<and>
   execute_task secured_config Map.empty (process_task secured_config) example_request None =
     \<lparr>calls = [],
      outcome = Some (Inl \<lparr>status_code = 401, detail = ''Invalid or missing API key''\<rparr>),
      uncaught = None\<rparr> \<and>
   calls (execute_task secured_config Map.empty (process_task secured_config) example_request
            (Some ''s3cret'')) =
     [(''Convert 100 USD to EUR'', Some ''u1'', [])] \<and>
   API_KEY default_config = None \<and>
   calls (execute_task default_config Map.empty (process_task default_config) example_request
            (Some ''anything'')) =
     [(''Convert 100 USD to EUR'', Some ''u1'', [])]"
  using
    execute_task_api_key_check [where cfg = secured_config and key = None and env = Map.empty
      and proc = "process_task secured_config" and request = example_request]
    execute_task_api_key_check [where cfg = secured_config and key = "Some ''s3cret''"
      and env = Map.empty and proc = "process_task secured_config" and request = example_request]
    execute_task_api_key_check [where cfg = default_config and key = "Some ''anything''"
      and env = Map.empty and proc = "process_task default_config" and request = example_request]
  by (simp add: config_keys example_request_fields or_empty_def)

text \<open>
  Claim C8. With \<open>API_KEY\<close> set to the empty string no key is checked: the request is
  passed to the processing function and the whole run is the same for every presented
  key. The exception with status 401 is raised exactly when \<open>API_KEY\<close> is a non-empty
  string and the presented key differs from it.
\<close>

theorem empty_api_key_disables_check:
  "(API_KEY cfg = Some [] \<longrightarrow>
      calls (execute_task cfg env proc request key) =
        [(task request, user_id request, or_empty (context request))] \<and>
      execute_task cfg env proc request key = execute_task cfg env proc request key') \<and>
   (\<exists>e. outcome (execute_task cfg env proc request key) = Some (Inl e) \<and> status_code e = 401) =
     (\<exists>s. API_KEY cfg = Some s \<and> s \<noteq> [] \<and> key \<noteq> Some s)"
proof (cases "truthy (API_KEY cfg) \<and> key \<noteq> API_KEY cfg")
  case True
  then show ?thesis
    by (auto simp add: execute_task_rejected truthy_iff)
next
  case False
  note accepted = execute_task_accepted [OF False, of env proc request]
  have other: "API_KEY cfg = Some [] \<Longrightarrow>
      execute_task cfg env proc request key' = execute_task cfg env proc request key"
    by (simp add: execute_task_def truthy_def)
  from False show ?thesis
    by (cases "proc (task request) (user_id request) (or_empty (context request))")
       (auto simp add: accepted other truthy_iff)
qed

theorem empty_api_key_disables_check_witness:
  "API_KEY empty_key_config = Some [] \<and>
   calls (execute_task empty_key_config Map.empty (process_task empty_key_config)
            example_request (Some ''wrong-key'')) =
     [(''Convert 100 USD to EUR'', Some ''u1'', [])] \<and>
   execute_task empty_key_config Map.empty (process_task empty_key_config) example_request
     (Some ''wrong-key'') =
   execute_task empty_key_config Map.empty (process_task empty_key_config) example_request None"
  using empty_api_key_disables_check [where cfg = empty_key_config
      and key = "Some ''wrong-key''" and key' = None and env = Map.empty
      and proc = "process_task empty_key_config" and request = example_request]
  by (auto simp add: config_keys example_request_fields or_empty_def)

section \<open>No time bound on the processing call\<close>

text \<open>
  Claim C3, as stated, fails: the handler awaits \<open>process_task\<close> directly, with no
  timeout around the call and no timeout error among its exceptions. With a processing
  function that never completes, an accepted request is handed to it and the caller gets
  no outcome at all.
\<close>

theorem no_timeout_counterexample:
  "never_completes (task example_request) (user_id example_request)
     (or_empty (context example_request)) = Pending \<and>
   execute_task default_config Map.empty never_completes example_request None =
     \<lparr>calls = [(''Convert 100 USD to EUR'', Some ''u1'', [])],
      outcome = None,
      uncaught = None\<rparr>"
  by (simp add: config_keys example_request_fields execute_task_def truthy_def or_empty_def
        never_completes_def)

text \<open>
  Claim C3, amended. \<open>execute_task\<close> puts no bound on the processing call: the caller
  is left waiting, with no outcome and no exception, exactly when the request passes the
  key check and the processing call never completes. No timeout error is ever produced:
  an \<open>HTTPException\<close> of the handler is either the one with status 401 and detail
  \<^verbatim>\<open>"Invalid or missing API key"\<close>, or the one with status 500 and detail
  \<^verbatim>\<open>"Task execution failed: "\<close> followed by the message of the exception the
  processing call raised. The figure of 30 seconds is only published, as
  \<^verbatim>\<open>limits.timeout_seconds\<close> of the discovery descriptor.
\<close>

theorem execute_task_waits_for_processing:
  "(outcome (execute_task cfg env proc request key) = None \<and>
    uncaught (execute_task cfg env proc request key) = None) =
     (\<not> (truthy (API_KEY cfg) \<and> key \<noteq> API_KEY cfg) \<and>
      proc (task request) (user_id request) (or_empty (context request)) = Pending) \<and>
   (\<forall>e. outcome (execute_task cfg env proc request key) = Some (Inl e) \<longrightarrow>
        e = \<lparr>status_code = 401, detail = ''Invalid or missing API key''\<rparr> \<or>
        (\<exists>msg. proc (task request) (user_id request) (or_empty (context request)) = Raises msg \<and>
               e = \<lparr>status_code = 500, detail = ''Task execution failed: '' @ msg\<rparr>)) \<and>
   map_of (agent_discovery cfg env) ''limits'' =
     Some (JDict [(''max_task_length'', JInt 10000),
                  (''timeout_seconds'', JInt 30),
                  (''rate_limit'', JStr ''100/minute'')])"
proof (cases "truthy (API_KEY cfg) \<and> key \<noteq> API_KEY cfg")
  case True
  then show ?thesis
    by (simp add: execute_task_rejected agent_discovery_def)
next
  case False
  note accepted = execute_task_accepted [OF False, of env proc request]
  from False show ?thesis
    by (cases "proc (task request) (user_id request) (or_empty (context request))")
       (simp_all add: accepted agent_discovery_def)
qed

theorem execute_task_waits_for_processing_witness:
  "outcome (execute_task default_config Map.empty never_completes example_request None) = None \<and>
   uncaught (execute_task default_config Map.empty never_completes example_request None) = None \<and>
   outcome (execute_task default_config Map.empty always_raises example_request None) =
     Some (Inl \<lparr>status_code = 500, detail = ''Task execution failed: boom''\<rparr>) \<and>
   outcome (execute_task secured_config Map.empty never_completes example_request None) =
     Some (Inl \<lparr>status_code = 401, detail = ''Invalid or missing API key''\<rparr>)"
  using
    execute_task_waits_for_processing [where cfg = default_config and key = None
      and env = Map.empty and proc = never_completes and request = example_request]
    execute_task_waits_for_processing [where cfg = default_config and key = None
      and env = Map.empty and proc = always_raises and request = example_request]
    execute_task_waits_for_processing [where cfg = secured_config and key = None
      and env = Map.empty and proc = never_completes and request = example_request]
  by (simp add: execute_task_def config_keys truthy_def never_completes_def always_raises_def)

section \<open>Failure and success of the processing call\<close>

text \<open>
  Claim C4. When a request passes the key check and the processing call raises an
  exception with message \<open>msg\<close>, the caller gets the \<open>HTTPException\<close> with status 500
  and detail \<^verbatim>\<open>"Task execution failed: "\<close> followed by \<open>msg\<close>, and no response.
\<close>

theorem execute_task_processing_failed:
  assumes "\<not> (truthy (API_KEY cfg) \<and> key \<noteq> API_KEY cfg)"
    and "proc (task request) (user_id request) (or_empty (context request)) = Raises msg"
  shows "outcome (execute_task cfg env proc request key) =
           Some (Inl \<lparr>status_code = 500, detail = ''Task execution failed: '' @ msg\<rparr>) \<and>
         (\<nexists>r. outcome (execute_task cfg env proc request key) = Some (Inr r))"
  using assms by (simp add: execute_task_accepted)

theorem execute_task_processing_failed_witness:
  "\<not> (truthy (API_KEY default_config) \<and> None \<noteq> API_KEY default_config) \<and>
   always_raises (task example_request) (user_id example_request)
     (or_empty (context example_request)) = Raises ''boom'' \<and>
   outcome (execute_task default_config Map.empty always_raises example_request None) =
     Some (Inl \<lparr>status_code = 500, detail = ''Task execution failed: boom''\<rparr>)"
  using execute_task_processing_failed [where cfg = default_config and key = None
      and env = Map.empty and proc = always_raises and request = example_request
      and msg = "''boom''"]
  by (simp add: config_keys truthy_def always_raises_def)

text \<open>
  Claim C5. When a request passes the key check and the processing call returns the
  text \<open>r\<close>, the caller gets a \<open>TaskResponse\<close> with result \<open>r\<close>, status
  \<^verbatim>\<open>"completed"\<close>, agent \<open>AGENT_NAME\<close> (the \<^verbatim>\<open>name\<close> of the discovery
  descriptor) and the metadata tags platform, service and region.
\<close>

theorem execute_task_success_response:
  assumes "\<not> (truthy (API_KEY cfg) \<and> key \<noteq> API_KEY cfg)"
    and "proc (task request) (user_id request) (or_empty (context request)) = Returns r"
  shows "outcome (execute_task cfg env proc request key) =
           Some (Inr \<lparr>result = r,
                      agent = AGENT_NAME cfg,
                      status = ''completed'',
                      response_metadata =
                        Some [(''platform'', JStr ''gcp''),
                              (''service'', JStr ''cloud-run''),
                              (''region'', JStr (getenv env ''GCP_REGION'' ''unknown''))]\<rparr>) \<and>
         map_of (agent_discovery cfg env) ''name'' = Some (JStr (AGENT_NAME cfg))"
  using assms by (simp add: execute_task_accepted agent_discovery_def)

theorem execute_task_success_response_witness:
  "\<not> (truthy (API_KEY secured_config) \<and> Some ''s3cret'' \<noteq> API_KEY secured_config) \<and>
   process_task secured_config (task example_request) (user_id example_request)
     (or_empty (context example_request)) =
       Returns ''Processed by gcp-adk-agent: Convert 100 USD to EUR'' \<and>
   outcome (execute_task secured_config [''GCP_REGION'' \<mapsto> ''europe-west1'']
              (process_task secured_config) example_request (Some ''s3cret'')) =
     Some (Inr \<lparr>result = ''Processed by gcp-adk-agent: Convert 100 USD to EUR'',
                agent = ''gcp-adk-agent'',
                status = ''completed'',
                response_metadata =
                  Some [(''platform'', JStr ''gcp''),
                        (''service'', JStr ''cloud-run''),
                        (''region'', JStr ''europe-west1'')]\<rparr>)"
  using execute_task_success_response [where cfg = secured_config and key = "Some ''s3cret''"
      and env = "[''GCP_REGION'' \<mapsto> ''europe-west1'']" and proc = "process_task secured_config"
      and request = example_request
      and r = "''Processed by gcp-adk-agent: Convert 100 USD to EUR''"]
  by (simp add: config_keys config_names example_request_fields process_task_def getenv_def)

text \<open>
  Claim C10. With the placeholder \<open>process_task\<close>, which returns on every input, a
  request that passes the key check gets a \<open>TaskResponse\<close> with status
  \<^verbatim>\<open>"completed"\<close> and result \<^verbatim>\<open>"Processed by "\<close>, the agent name,
  \<^verbatim>\<open>": "\<close> and the task text, a non-empty string; the exception branch is not taken.
\<close>

theorem placeholder_process_task_response:
  assumes "\<not> (truthy (API_KEY cfg) \<and> key \<noteq> API_KEY cfg)"
  shows "outcome (execute_task cfg env (process_task cfg) request key) =
           Some (Inr \<lparr>result = ''Processed by '' @ AGENT_NAME cfg @ '': '' @ task request,
                      agent = AGENT_NAME cfg,
                      status = ''completed'',
                      response_metadata =
                        Some [(''platform'', JStr ''gcp''),
                              (''service'', JStr ''cloud-run''),
                              (''region'', JStr (getenv env ''GCP_REGION'' ''unknown''))]\<rparr>) \<and>
         ''Processed by '' @ AGENT_NAME cfg @ '': '' @ task request \<noteq> [] \<and>
         (\<nexists>e. outcome (execute_task cfg env (process_task cfg) request key) = Some (Inl e)) \<and>
         (\<forall>t u c. \<exists>r. process_task cfg t u c = Returns r)"
  using assms by (simp add: execute_task_accepted process_task_def)

theorem placeholder_process_task_response_witness:
  "\<not> (truthy (API_KEY default_config) \<and> None \<noteq> API_KEY default_config) \<and>
   outcome (execute_task default_config Map.empty (process_task default_config)
              example_request None) =
     Some (Inr \<lparr>result = ''Processed by gcp-adk-agent: Convert 100 USD to EUR'',
                agent = ''gcp-adk-agent'',
                status = ''completed'',
                response_metadata =
                  Some [(''platform'', JStr ''gcp''),
                        (''service'', JStr ''cloud-run''),
                        (''region'', JStr ''unknown'')]\<rparr>)"
  using placeholder_process_task_response [where cfg = default_config and key = None
      and env = Map.empty and request = example_request]
  by (simp add: config_keys config_names example_request_fields truthy_def getenv_def)

section \<open>The request's fields\<close>

text \<open>
  Claim C7, as stated, fails for the metadata: \<open>execute_task\<close> never reads
  \<^verbatim>\<open>request.metadata\<close>, so a metadata mapping supplied with the request is passed
  to nothing. It is not among the arguments of the processing call, and the response's
  metadata is the handler's own platform, service and region tags.
\<close>

theorem request_metadata_dropped_counterexample:
  "metadata (TaskRequest_init ''hello'' Omitted Omitted
               (Passed (Some [(''trace'', JStr ''abc'')]))) =
     Some [(''trace'', JStr ''abc'')] \<and>
   execute_task default_config Map.empty (process_task default_config)
       (TaskRequest_init ''hello'' Omitted Omitted (Passed (Some [(''trace'', JStr ''abc'')])))
       None =
     \<lparr>calls = [(''hello'', Some ''anonymous'', [])],
      outcome =
        Some (Inr \<lparr>result = ''Processed by gcp-adk-agent: hello'',
                   agent = ''gcp-adk-agent'',
                   status = ''completed'',
                   response_metadata =
                     Some [(''platform'', JStr ''gcp''),
                           (''service'', JStr ''cloud-run''),
                           (''region'', JStr ''unknown'')]\<rparr>),
      uncaught = None\<rparr>"
  by (simp add: config_keys config_names TaskRequest_init_def getenv_def
        execute_task_def truthy_def or_empty_def process_task_def)

text \<open>
  Claim C7, amended for the metadata. A \<open>TaskRequest\<close> built without
  \<^verbatim>\<open>user_id\<close> has user id \<^verbatim>\<open>"anonymous"\<close>. A context or a metadata mapping
  passed to the constructor is stored as it is. \<open>execute_task\<close> hands a supplied context
  mapping to the processing function unchanged. It never reads the request's metadata:
  the run is the same whatever the metadata is, and the metadata of a response is the
  platform, service and region tags.
\<close>

theorem task_request_defaults_and_passthrough:
  "user_id (TaskRequest_init t Omitted c m) = Some ''anonymous'' \<and>
   context (TaskRequest_init t u (Passed (Some d)) m) = Some d \<and>
   metadata (TaskRequest_init t u c (Passed (Some d))) = Some d \<and>
   (\<not> (truthy (API_KEY cfg) \<and> key \<noteq> API_KEY cfg) \<longrightarrow>
      calls (execute_task cfg env proc (TaskRequest_init t u (Passed (Some d)) m) key) =
        [(t, user_id (TaskRequest_init t u (Passed (Some d)) m), d)]) \<and>
   execute_task cfg env proc (request\<lparr>metadata := md\<rparr>) key =
     execute_task cfg env proc request key \<and>
   (\<forall>r. outcome (execute_task cfg env proc request key) = Some (Inr r) \<longrightarrow>
        response_metadata r =
          Some [(''platform'', JStr ''gcp''),
                (''service'', JStr ''cloud-run''),
                (''region'', JStr (getenv env ''GCP_REGION'' ''unknown''))])"
proof -
  have tags: "\<forall>r. outcome (execute_task cfg env proc request key) = Some (Inr r) \<longrightarrow>
        response_metadata r =
          Some [(''platform'', JStr ''gcp''),
                (''service'', JStr ''cloud-run''),
                (''region'', JStr (getenv env ''GCP_REGION'' ''unknown''))]"
    by (cases "proc (task request) (user_id request) (or_empty (context request))")
       (auto simp add: execute_task_def)
  then show ?thesis
    by (simp add: TaskRequest_init_def execute_task_def or_empty_def)
qed

theorem task_request_defaults_and_passthrough_witness:
  "\<not> (truthy (API_KEY default_config) \<and> None \<noteq> API_KEY default_config) \<and>
   user_id (TaskRequest_init ''hello'' Omitted Omitted Omitted) = Some ''anonymous'' \<and>
   calls (execute_task default_config Map.empty (process_task default_config)
            (TaskRequest_init ''hello'' Omitted
               (Passed (Some [(''history'', JList [JStr ''hi''])])) Omitted) None) =
     [(''hello'', Some ''anonymous'', [(''history'', JList [JStr ''hi''])])] \<and>
   execute_task default_config Map.empty (process_task default_config)
     (example_request\<lparr>metadata := Some [(''trace'', JStr ''abc'')]\<rparr>) None =
   execute_task default_config Map.empty (process_task default_config) example_request None"
  using task_request_defaults_and_passthrough [where cfg = default_config and key = None
      and env = Map.empty and proc = "process_task default_config" and t = "''hello''"
      and u = Omitted and c = Omitted and m = Omitted
      and d = "[(''history'', JList [JStr ''hi''])]" and request = example_request
      and md = "Some [(''trace'', JStr ''abc'')]"]
  by (simp add: config_keys truthy_def TaskRequest_init_def)

text \<open>
  Claim C9. For a request built with the context left out or passed as \<^verbatim>\<open>None\<close>,
  every call of the processing function made by \<open>execute_task\<close> has the empty mapping
  as its context, and a request that passes the key check makes exactly that one call.
  The context argument is a mapping in every call, by the type of \<open>or_empty\<close>.
\<close>

theorem absent_or_null_context_becomes_empty:
  assumes "c = Omitted \<or> c = Passed None"
  shows "(\<forall>call \<in> set (calls (execute_task cfg env proc (TaskRequest_init t u c m) key)).
            snd (snd call) = []) \<and>
         (\<not> (truthy (API_KEY cfg) \<and> key \<noteq> API_KEY cfg) \<longrightarrow>
            calls (execute_task cfg env proc (TaskRequest_init t u c m) key) =
              [(t, user_id (TaskRequest_init t u c m), [])])"
  using assms by (auto simp add: TaskRequest_init_def execute_task_def or_empty_def)

theorem absent_or_null_context_becomes_empty_witness:
  "\<not> (truthy (API_KEY default_config) \<and> None \<noteq> API_KEY default_config) \<and>
   calls (execute_task default_config Map.empty (process_task default_config)
            (TaskRequest_init ''hello'' (Passed (Some ''u1'')) (Passed None) Omitted) None) =
     [(''hello'', Some ''u1'', [])]"
  using absent_or_null_context_becomes_empty [where cfg = default_config and key = None
      and env = Map.empty and proc = "process_task default_config" and t = "''hello''"
      and u = "Passed (Some ''u1'')" and c = "Passed None" and m = Omitted]
  by (simp add: config_keys truthy_def TaskRequest_init_def)

section \<open>Discovery\<close>

text \<open>
  Claim C6, as stated, fails for the two \<^verbatim>\<open>contact\<close> entries read by
  \<^verbatim>\<open>os.getenv\<close> inside the handler: in one process, whose configuration was loaded
  once, the descriptor returned when \<^verbatim>\<open>GCP_REGION\<close> is unset differs from the one
  returned when it is set.
\<close>

theorem descriptor_not_fixed_counterexample:
  "map_of (agent_discovery (load_config Map.empty) Map.empty) ''contact'' =
     Some (JDict [(''platform'', JStr ''Google Cloud Platform''),
                  (''region'', JStr ''us-central1''),
                  (''service'', JStr ''cloud-run'')]) \<and>
   map_of (agent_discovery (load_config Map.empty) [''GCP_REGION'' \<mapsto> ''europe-west1''])
       ''contact'' =
     Some (JDict [(''platform'', JStr ''Google Cloud Platform''),
                  (''region'', JStr ''europe-west1''),
                  (''service'', JStr ''cloud-run'')]) \<and>
   agent_discovery (load_config Map.empty) Map.empty \<noteq>
   agent_discovery (load_config Map.empty) [''GCP_REGION'' \<mapsto> ''europe-west1'']"
  by (simp add: agent_discovery_def getenv_def)

text \<open>
  Claim C6, amended. \<open>agent_discovery\<close> is a total function of the configuration and
  the environment, with no key among its arguments and no dependence on \<open>API_KEY\<close>. The
  descriptor has exactly the nine fields name, description, version, protocol,
  capabilities, keywords, endpoints, contact and limits; protocol is \<^verbatim>\<open>"a2a"\<close>.
  In a process started in the environment \<open>boot_env\<close> and asked when the environment is
  \<open>env\<close>, name, description, capabilities and keywords are determined by \<open>boot_env\<close>, the
  region and service of contact by \<open>env\<close>, a default standing in for each variable
  that is not set, and the rest is literal; with nothing set the descriptor is the
  second list below. Every entry but contact is the same at every call, and the whole
  descriptor is the same at two calls between which \<^verbatim>\<open>GCP_REGION\<close> and
  \<^verbatim>\<open>K_SERVICE\<close> have not changed.
\<close>

theorem agent_discovery_descriptor:
  "map fst (agent_discovery cfg env) =
     [''name'', ''description'', ''version'', ''protocol'', ''capabilities'', ''keywords'',
      ''endpoints'', ''contact'', ''limits''] \<and>
   map_of (agent_discovery cfg env) ''protocol'' = Some (JStr ''a2a'') \<and>
   agent_discovery (cfg\<lparr>API_KEY := k\<rparr>) env = agent_discovery cfg env \<and>
   agent_discovery (load_config boot_env) env =
     [(''name'', JStr (getenv boot_env ''AGENT_NAME'' ''gcp-adk-agent'')),
      (''description'',
         JStr (getenv boot_env ''AGENT_DESCRIPTION'' ''ADK-based agent running in Google Cloud'')),
      (''version'', JStr ''1.0.0''),
      (''protocol'', JStr ''a2a''),
      (''capabilities'',
         JList (map JStr (split CHR '',''
                  (getenv boot_env ''AGENT_CAPABILITIES'' ''general,nlp,conversation'')))),
      (''keywords'',
         JList (map JStr (split CHR '','' (getenv boot_env ''AGENT_KEYWORDS'' ''chat,assistant,help'')))),
      (''endpoints'',
         JDict [(''execute'', JStr ''/execute''),
                (''health'', JStr ''/health''),
                (''metrics'', JStr ''/metrics'')]),
      (''contact'',
         JDict [(''platform'', JStr ''Google Cloud Platform''),
                (''region'', JStr (getenv env ''GCP_REGION'' ''us-central1'')),
                (''service'', JStr (getenv env ''K_SERVICE'' ''cloud-run''))]),
      (''limits'',
         JDict [(''max_task_length'', JInt 10000),
                (''timeout_seconds'', JInt 30),
                (''rate_limit'', JStr ''100/minute'')])] \<and>
   agent_discovery (load_config Map.empty) Map.empty =
     [(''name'', JStr ''gcp-adk-agent''),
      (''description'', JStr ''ADK-based agent running in Google Cloud''),
      (''version'', JStr ''1.0.0''),
      (''protocol'', JStr ''a2a''),
      (''capabilities'', JList [JStr ''general'', JStr ''nlp'', JStr ''conversation'']),
      (''keywords'', JList [JStr ''chat'', JStr ''assistant'', JStr ''help'']),
      (''endpoints'',
         JDict [(''execute'', JStr ''/execute''),
                (''health'', JStr ''/health''),
                (''metrics'', JStr ''/metrics'')]),
      (''contact'',
         JDict [(''platform'', JStr ''Google Cloud Platform''),
                (''region'', JStr ''us-central1''),
                (''service'', JStr ''cloud-run'')]),
      (''limits'',
         JDict [(''max_task_length'', JInt 10000),
                (''timeout_seconds'', JInt 30),
                (''rate_limit'', JStr ''100/minute'')])] \<and>
   filter (\<lambda>entry. fst entry \<noteq> ''contact'') (agent_discovery cfg env) =
     filter (\<lambda>entry. fst entry \<noteq> ''contact'') (agent_discovery cfg env') \<and>
   (env ''GCP_REGION'' = env' ''GCP_REGION'' \<and> env ''K_SERVICE'' = env' ''K_SERVICE'' \<longrightarrow>
      agent_discovery cfg env = agent_discovery cfg env')"
  by (simp add: agent_discovery_def load_config_def getenv_def)

theorem agent_discovery_descriptor_witness:
  "[''GCP_REGION'' \<mapsto> ''europe-west1''] ''GCP_REGION'' =
     [''GCP_REGION'' \<mapsto> ''europe-west1'', ''AGENT_NAME'' \<mapsto> ''renamed''] ''GCP_REGION'' \<and>
   [''GCP_REGION'' \<mapsto> ''europe-west1''] ''K_SERVICE'' =
     [''GCP_REGION'' \<mapsto> ''europe-west1'', ''AGENT_NAME'' \<mapsto> ''renamed''] ''K_SERVICE'' \<and>
   agent_discovery (load_config [''AGENT_NAME'' \<mapsto> ''fx-agent''])
       [''GCP_REGION'' \<mapsto> ''europe-west1''] =
     agent_discovery (load_config [''AGENT_NAME'' \<mapsto> ''fx-agent''])
       [''GCP_REGION'' \<mapsto> ''europe-west1'', ''AGENT_NAME'' \<mapsto> ''renamed''] \<and>
   map_of (agent_discovery (load_config [''AGENT_NAME'' \<mapsto> ''fx-agent''])
             [''GCP_REGION'' \<mapsto> ''europe-west1'']) ''name'' = Some (JStr ''fx-agent'')"
  using agent_discovery_descriptor [where cfg = "load_config [''AGENT_NAME'' \<mapsto> ''fx-agent'']"
      and boot_env = "[''AGENT_NAME'' \<mapsto> ''fx-agent'']"
      and env = "[''GCP_REGION'' \<mapsto> ''europe-west1'']"
      and env' = "[''GCP_REGION'' \<mapsto> ''europe-west1'', ''AGENT_NAME'' \<mapsto> ''renamed'']"
      and k = None]
  by (simp add: agent_discovery_def load_config_def getenv_def)

end
